theory Spec2Isabelle
  imports Main "HOL-Library.AList" "HOL-Library.Sublist"
begin

section \<open>Python strings\<close>

text \<open>
  A Python \<open>str\<close> is a sequence of Unicode code points, so a string is a list of
  natural numbers. \<open>ascii\<close> reads an ASCII literal; the other code points of the
  source's literals are written as numbers (243 is o-acute, 8212 the em dash).

  \<open>str.upper\<close>, \<open>str.lower\<close> and the white-space class used by \<open>str.strip\<close> and by
  the pattern \<open>\s\<close> come from the interpreter's Unicode tables, which are no part of
  the repository. The functions below take them as the parameters \<open>upper\<close>, \<open>lower\<close>
  and \<open>isspace\<close>, so that what is proved holds whatever the tables are.
  \<open>ascii_upper\<close>, \<open>ascii_lower\<close> and \<open>ascii_isspace\<close> are what the tables do on ASCII
  text, for evaluation.
\<close>

type_synonym pystr = "nat list"

definition ascii :: "string \<Rightarrow> pystr" where
  "ascii s = map of_char s"

definition ascii_upper :: "pystr \<Rightarrow> pystr" where
  "ascii_upper s = map (\<lambda>c. if 97 \<le> c \<and> c \<le> 122 then c - 32 else c) s"

definition ascii_lower :: "pystr \<Rightarrow> pystr" where
  "ascii_lower s = map (\<lambda>c. if 65 \<le> c \<and> c \<le> 90 then c + 32 else c) s"

definition ascii_isspace :: "nat \<Rightarrow> bool" where
  "ascii_isspace c = (c = 32 \<or> (9 \<le> c \<and> c \<le> 13) \<or> (28 \<le> c \<and> c \<le> 31))"

text \<open>\<open>t.startswith(s)\<close> and \<open>s in t\<close> on strings.\<close>

fun startswith :: "pystr \<Rightarrow> pystr \<Rightarrow> bool" where
  "startswith t [] = True"
| "startswith [] (c # s) = False"
| "startswith (a # t) (c # s) = (a = c \<and> startswith t s)"

fun str_in :: "pystr \<Rightarrow> pystr \<Rightarrow> bool" where
  "str_in s [] = (s = [])"
| "str_in s (a # t) = (startswith (a # t) s \<or> str_in s t)"

text \<open>\<open>text.strip()\<close>: white space removed at both ends.\<close>

definition strip :: "(nat \<Rightarrow> bool) \<Rightarrow> pystr \<Rightarrow> pystr" where
  "strip isspace s = rev (dropWhile isspace (rev (dropWhile isspace s)))"

text \<open>\<open>re.sub(r"\s+", " ", text)\<close>: every maximal run of white space becomes one space.\<close>

function re_sub_ws :: "(nat \<Rightarrow> bool) \<Rightarrow> pystr \<Rightarrow> pystr" where
  "re_sub_ws isspace [] = []"
| "re_sub_ws isspace (c # cs) =
     (if isspace c then 32 # re_sub_ws isspace (dropWhile isspace cs)
      else c # re_sub_ws isspace cs)"
  by pat_completeness auto
termination
  by (relation "measure (\<lambda>(isspace, s). length s)")
     (auto simp: less_Suc_eq_le length_dropWhile_le)

text \<open>\<open>sep.join(xs)\<close>.\<close>

fun join :: "pystr \<Rightarrow> pystr list \<Rightarrow> pystr" where
  "join sep [] = []"
| "join sep [x] = x"
| "join sep (x # y # ys) = x @ sep @ join sep (y # ys)"

text \<open>
  Truth value of an \<open>Optional[str]\<close>: \<open>None\<close> and the empty string are false.
  \<open>or_str x d\<close> is \<open>x or d\<close>.
\<close>

definition truthy :: "pystr option \<Rightarrow> bool" where
  "truthy x = (case x of None \<Rightarrow> False | Some s \<Rightarrow> s \<noteq> [])"

definition or_str :: "pystr option \<Rightarrow> pystr \<Rightarrow> pystr" where
  "or_str x d = (case x of None \<Rightarrow> d | Some s \<Rightarrow> if s = [] then d else s)"

section \<open>Fixed lists\<close>

definition DOCUMENTOS_BASE :: "pystr list" where
  "DOCUMENTOS_BASE =
    [ascii ''Contrato (si existe)'',
     ascii ''Constancia salarial / colillas / transferencias'',
     ascii ''Carta de despido (si existe)'',
     ascii ''Afiliaci'' @ [243] @ ascii ''n AFP/ISSS (si aplica)'',
     ascii ''Comprobantes de pago'',
     ascii ''Planillas / boletas / transferencias'',
     ascii ''Comunicaci'' @ [243] @ ascii ''n con empleador (WhatsApp/email) si existe'',
     ascii ''Constancia m'' @ [233] @ ascii ''dica (si aplica)'',
     ascii ''Incapacidad (si existe)'',
     ascii ''Reportes (si existen)'']"

definition LABORAL_KEYWORDS :: "pystr list" where
  "LABORAL_KEYWORDS =
    [ascii ''empleador'', ascii ''salario'', ascii ''pago'', ascii ''despido'',
     ascii ''jornada'', ascii ''prestaciones'', ascii ''contrato'', ascii ''trabaj'',
     ascii ''incapacidad'', ascii ''accidente'']"

definition PENAL_SIGNALS :: "pystr list" where
  "PENAL_SIGNALS =
    [ascii ''amenaza de muerte'', ascii ''arma'', ascii ''secuestro'',
     ascii ''extorsi'' @ [243] @ ascii ''n'',
     ascii ''agresi'' @ [243] @ ascii ''n sexual'']"

section \<open>Narrative classifier\<close>

definition normalize_text :: "(pystr \<Rightarrow> pystr) \<Rightarrow> (nat \<Rightarrow> bool) \<Rightarrow> pystr \<Rightarrow> pystr" where
  "normalize_text lower isspace text = re_sub_ws isspace (lower (strip isspace text))"

text \<open>\<open>any(s in t for s in PENAL_SIGNALS)\<close> and \<open>any(k in t for k in LABORAL_KEYWORDS)\<close>.\<close>

definition any_penal :: "pystr \<Rightarrow> bool" where
  "any_penal t = list_ex (\<lambda>s. str_in s t) PENAL_SIGNALS"

definition any_laboral :: "pystr \<Rightarrow> bool" where
  "any_laboral t = list_ex (\<lambda>k. str_in k t) LABORAL_KEYWORDS"

definition ROUTE_PENAL :: pystr where
  "ROUTE_PENAL = ascii ''PENAL (probable) '' @ [8212] @ ascii '' derivaci'' @ [243]
     @ ascii ''n sugerida, revisi'' @ [243] @ ascii ''n humana obligatoria''"

definition ROUTE_LABORAL :: pystr where
  "ROUTE_LABORAL = ascii ''LABORAL (probable) '' @ [8212] @ ascii '' pre-clasificaci'' @ [243]
     @ ascii ''n operativa, revisi'' @ [243] @ ascii ''n humana final''"

definition ROUTE_REVISAR :: pystr where
  "ROUTE_REVISAR = ascii ''REVISAR (humano) '' @ [8212] @ ascii '' informaci'' @ [243]
     @ ascii ''n insuficiente para ruta operativa''"

definition corresponde_a_laboral ::
  "(pystr \<Rightarrow> pystr) \<Rightarrow> (nat \<Rightarrow> bool) \<Rightarrow> pystr \<Rightarrow> bool" where
  "corresponde_a_laboral lower isspace relato_total =
     (let t = normalize_text lower isspace relato_total in
      if any_penal t then False else any_laboral t)"

definition route_operativa ::
  "(pystr \<Rightarrow> pystr) \<Rightarrow> (nat \<Rightarrow> bool) \<Rightarrow> pystr \<Rightarrow> pystr" where
  "route_operativa lower isspace relato_total =
     (let t = normalize_text lower isspace relato_total in
      if any_penal t then ROUTE_PENAL
      else if any_laboral t then ROUTE_LABORAL
      else ROUTE_REVISAR)"

section \<open>Case model\<close>

datatype CaseState =
    RECEIVED
  | DETAILS_CAPTURED
  | DOCS_REQUESTED
  | DOCS_RECEIVED
  | VALIDATED
  | PRE_CLASSIFIED
  | EXPEDIENTE_GENERATED
  | HANDOFF_TO_HUMAN

text \<open>\<open>state.value\<close>: the string of an enumeration member.\<close>

fun state_value :: "CaseState \<Rightarrow> pystr" where
  "state_value RECEIVED = ascii ''RECEIVED''"
| "state_value DETAILS_CAPTURED = ascii ''DETAILS_CAPTURED''"
| "state_value DOCS_REQUESTED = ascii ''DOCS_REQUESTED''"
| "state_value DOCS_RECEIVED = ascii ''DOCS_RECEIVED''"
| "state_value VALIDATED = ascii ''VALIDATED''"
| "state_value PRE_CLASSIFIED = ascii ''PRE_CLASSIFIED''"
| "state_value EXPEDIENTE_GENERATED = ascii ''EXPEDIENTE_GENERATED''"
| "state_value HANDOFF_TO_HUMAN = ascii ''HANDOFF_TO_HUMAN''"

record DocumentChecklistItem =
  doc :: pystr
  requerido :: bool
  recibido :: bool
  nota :: "pystr option"

record CaseData =
  nombre :: "pystr option"
  dui :: "pystr option"
  contacto :: "pystr option"
  empleador_nombre :: "pystr option"
  cargo :: "pystr option"
  salario_monto :: "pystr option"
  salario_periodicidad :: "pystr option"
  fecha_inicio :: "pystr option"
  fecha_despido_ultimo_pago :: "pystr option"
  relato :: "pystr option"
  relato_extra :: "pystr option"
  pretension :: "pystr option"
  jurisdiccion_probable :: "pystr option"
  banderas :: "pystr list"

text \<open>
  The checklist is a \<open>dict\<close> whose order of insertion is read by \<open>request_documents\<close>,
  so it is an association list: \<open>map_of\<close> reads a key, \<open>AList.update\<close> writes one
  (in place when the key is there, at the end otherwise, as a \<open>dict\<close> does).
\<close>

record CaseRecord =
  case_id :: pystr
  state :: CaseState
  created_at :: pystr
  updated_at :: pystr
  data :: CaseData
  checklist :: "(pystr \<times> DocumentChecklistItem) list"
  expediente :: "pystr option"

text \<open>\<open>CASE_DB\<close>, the case store. Every operation takes it and returns it updated.\<close>

type_synonym case_db = "pystr \<rightharpoonup> CaseRecord"

text \<open>\<open>DocumentChecklistItem(doc=d)\<close> and \<open>CaseData()\<close> with the defaults of the classes.\<close>

definition new_item :: "pystr \<Rightarrow> DocumentChecklistItem" where
  "new_item d = \<lparr>doc = d, requerido = False, recibido = False, nota = None\<rparr>"

definition new_data :: CaseData where
  "new_data = \<lparr>nombre = None, dui = None, contacto = None, empleador_nombre = None,
     cargo = None, salario_monto = None, salario_periodicidad = None, fecha_inicio = None,
     fecha_despido_ultimo_pago = None, relato = None, relato_extra = None,
     pretension = None, jurisdiccion_probable = None, banderas = []\<rparr>"

text \<open>
  \<open>CaseRecord(case_id=cid)\<close>. The two default factories read the clock; \<open>now\<close> is the
  pair of strings they produce.
\<close>

definition new_record :: "pystr \<Rightarrow> pystr \<times> pystr \<Rightarrow> CaseRecord" where
  "new_record cid now = \<lparr>case_id = cid, state = RECEIVED, created_at = fst now,
     updated_at = snd now, data = new_data, checklist = [], expediente = None\<rparr>"

text \<open>
  \<open>HARDCODED_GENERAL_CASES\<close>. Each entry of the source is a dictionary with the one key
  \<open>relato\<close>; the list keeps the value under that key.
\<close>

definition HARDCODED_GENERAL_CASES :: "(pystr \<times> pystr) list" where
  "HARDCODED_GENERAL_CASES =
    [(ascii ''LAB-0001'',
      ascii ''Trabaj'' @ [233] @ ascii '' como auxiliar de bodega. Me pagaban semanalmente. ''
      @ ascii ''El empleador me dijo que ya no llegara y no me entreg'' @ [243]
      @ ascii '' carta de despido. ''
      @ ascii ''Qued'' @ [243] @ ascii '' pendiente el pago de la '' @ [250] @ ascii ''ltima semana.''),
     (ascii ''LAB-0002'',
      ascii ''Tuve un accidente en el trabajo y me dieron incapacidad. ''
      @ ascii ''El empleador no quiso reconocer el incidente y me presion'' @ [243]
      @ ascii '' para renunciar.'')]"

section \<open>Results\<close>

text \<open>
  An operation returns a \<open>dict\<close> with string keys: an association list from the key to
  a value, in the order of the source's literal.
\<close>

datatype pyval =
    VStr pystr
  | VBool bool
  | VList "pyval list"
  | VDict "(string \<times> pyval) list"

type_synonym result = "(string \<times> pyval) list"

definition NOT_FOUND :: result where
  "NOT_FOUND = [(''status'', VStr (ascii ''error'')),
                (''error_message'', VStr (ascii ''case_id no encontrado.''))]"

definition NO_STORY :: result where
  "NO_STORY = [(''status'', VStr (ascii ''error'')),
               (''error_message'', VStr (ascii
                 ''No hay relato quemado para ese case_id (usa LAB-0001 o LAB-0002).''))]"

section \<open>Operations\<close>

text \<open>
  Each operation is the source function of the same name, with the case store passed
  in and returned. An argument that has the name of a field carries a prime.
\<close>

definition create_case ::
  "(pystr \<Rightarrow> pystr) \<Rightarrow> pystr \<times> pystr \<Rightarrow> pystr option \<Rightarrow> case_db \<Rightarrow> result \<times> case_db" where
  "create_case upper now case_id' db =
     (let cid = upper (or_str case_id' (ascii ''LAB-0001''));
          c = (case db cid of None \<Rightarrow> new_record cid now | Some c0 \<Rightarrow> c0);
          db1 = (if cid \<notin> dom db then db(cid \<mapsto> c) else db)
      in ([(''status'', VStr (ascii ''ok'')), (''case_id'', VStr cid),
           (''state'', VStr (state_value (state c)))], db1))"

definition capture_identity ::
  "(pystr \<Rightarrow> pystr) \<Rightarrow> pystr \<times> pystr \<Rightarrow> pystr \<Rightarrow> pystr \<Rightarrow> pystr \<Rightarrow> pystr \<Rightarrow> case_db
     \<Rightarrow> result \<times> case_db" where
  "capture_identity upper now case_id' dui' nombre' contacto' db =
     (let cid = upper case_id';
          c = (case db cid of None \<Rightarrow> new_record cid now | Some c0 \<Rightarrow> c0);
          c1 = c\<lparr>data := (data c)\<lparr>dui := Some dui', nombre := Some nombre',
                                  contacto := Some contacto'\<rparr>,
                state := DETAILS_CAPTURED\<rparr>
      in ([(''status'', VStr (ascii ''ok'')), (''case_id'', VStr cid),
           (''state'', VStr (state_value (state c1)))], db(cid \<mapsto> c1)))"

definition pull_story_from_general ::
  "(pystr \<Rightarrow> pystr) \<Rightarrow> pystr \<times> pystr \<Rightarrow> pystr \<Rightarrow> case_db \<Rightarrow> result \<times> case_db" where
  "pull_story_from_general upper now case_id' db =
     (let cid = upper case_id';
          c = (case db cid of None \<Rightarrow> new_record cid now | Some c0 \<Rightarrow> c0);
          db1 = (if cid \<notin> dom db then db(cid \<mapsto> c) else db)
      in case map_of HARDCODED_GENERAL_CASES cid of
           None \<Rightarrow> (NO_STORY, db1)
         | Some hard \<Rightarrow>
             (let c1 = c\<lparr>data := (data c)\<lparr>relato := Some hard\<rparr>,
                        state := DETAILS_CAPTURED\<rparr>
              in ([(''status'', VStr (ascii ''ok'')), (''case_id'', VStr cid),
                   (''formato'', VDict
                      [(''nombre_persona'', VStr (or_str (nombre (data c1)) (ascii ''N/D''))),
                       (''dui'', VStr (or_str (dui (data c1)) (ascii ''N/D''))),
                       (''relato'', VStr hard)]),
                   (''state'', VStr (state_value (state c1)))], db1(cid \<mapsto> c1))))"

definition add_more_info ::
  "(pystr \<Rightarrow> pystr) \<Rightarrow> pystr \<Rightarrow> pystr \<Rightarrow> case_db \<Rightarrow> result \<times> case_db" where
  "add_more_info upper case_id' info_adicional db =
     (let cid = upper case_id' in
      case db cid of
        None \<Rightarrow> (NOT_FOUND, db)
      | Some c \<Rightarrow>
          (let c1 = c\<lparr>data := (data c)\<lparr>relato_extra := Some info_adicional\<rparr>,
                     state := DETAILS_CAPTURED\<rparr>
           in ([(''status'', VStr (ascii ''ok'')), (''case_id'', VStr cid),
                (''state'', VStr (state_value (state c1)))], db(cid \<mapsto> c1))))"

definition capture_required_fields ::
  "(pystr \<Rightarrow> pystr) \<Rightarrow> pystr \<Rightarrow> pystr \<Rightarrow> pystr \<Rightarrow> pystr \<Rightarrow> pystr \<Rightarrow> pystr \<Rightarrow> pystr \<Rightarrow> pystr
     \<Rightarrow> case_db \<Rightarrow> result \<times> case_db" where
  "capture_required_fields upper case_id' empleador_nombre' cargo' salario_monto'
       salario_periodicidad' fecha_inicio' fecha_despido_ultimo_pago' pretension' db =
     (let cid = upper case_id' in
      case db cid of
        None \<Rightarrow> (NOT_FOUND, db)
      | Some c \<Rightarrow>
          (let d = (data c)\<lparr>empleador_nombre := Some empleador_nombre',
                            cargo := Some cargo',
                            salario_monto := Some salario_monto',
                            salario_periodicidad := Some salario_periodicidad',
                            fecha_inicio := Some fecha_inicio',
                            fecha_despido_ultimo_pago := Some fecha_despido_ultimo_pago',
                            pretension := Some pretension'\<rparr>;
               c1 = c\<lparr>data := d, state := DETAILS_CAPTURED\<rparr>
           in ([(''status'', VStr (ascii ''ok'')), (''case_id'', VStr cid),
                (''state'', VStr (state_value (state c1)))], db(cid \<mapsto> c1))))"

definition request_documents ::
  "(pystr \<Rightarrow> pystr) \<Rightarrow> pystr \<Rightarrow> case_db \<Rightarrow> result \<times> case_db" where
  "request_documents upper case_id' db =
     (let cid = upper case_id' in
      case db cid of
        None \<Rightarrow> (NOT_FOUND, db)
      | Some c \<Rightarrow>
          (let c1 = c\<lparr>checklist := map (\<lambda>name. (name, new_item name)) DOCUMENTOS_BASE,
                     state := DOCS_REQUESTED\<rparr>
           in ([(''status'', VStr (ascii ''ok'')), (''case_id'', VStr cid),
                (''documentos_base'', VList (map (\<lambda>(name, d).
                    VDict [(''doc'', VStr (doc d)), (''recibido'', VBool (recibido d))])
                  (checklist c1))),
                (''state'', VStr (state_value (state c1))),
                (''nota'', VStr (ascii ''No son obligatorios, pero se solicitan si existen.''))],
               db(cid \<mapsto> c1))))"

definition mark_document ::
  "(pystr \<Rightarrow> pystr) \<Rightarrow> pystr \<Rightarrow> pystr \<Rightarrow> bool \<Rightarrow> pystr option \<Rightarrow> case_db
     \<Rightarrow> result \<times> case_db" where
  "mark_document upper case_id' doc_name existe nota' db =
     (let cid = upper case_id' in
      case db cid of
        None \<Rightarrow> (NOT_FOUND, db)
      | Some c \<Rightarrow>
          (let checklist1 = (if checklist c = []
                             then map (\<lambda>name. (name, new_item name)) DOCUMENTOS_BASE
                             else checklist c);
               item = (case map_of checklist1 doc_name of
                         None \<Rightarrow> new_item doc_name | Some i \<Rightarrow> i);
               item1 = item\<lparr>recibido := existe\<rparr>;
               item2 = (if truthy nota' then item1\<lparr>nota := nota'\<rparr> else item1);
               c1 = c\<lparr>checklist := AList.update doc_name item2 checklist1,
                     state := DOCS_RECEIVED\<rparr>
           in ([(''status'', VStr (ascii ''ok'')), (''case_id'', VStr cid),
                (''doc'', VStr doc_name), (''existe'', VBool existe),
                (''state'', VStr (state_value (state c1)))], db(cid \<mapsto> c1))))"

text \<open>
  \<open>relato_total\<close>, the expression that \<open>validate_and_recheck\<close> and
  \<open>generate_expediente\<close> both compute: the base narrative, then a line feed and the
  supplement when there is one.
\<close>

definition relato_total_of :: "CaseData \<Rightarrow> pystr" where
  "relato_total_of d =
     or_str (relato d) []
     @ (case relato_extra d of
          None \<Rightarrow> []
        | Some e \<Rightarrow> if e = [] then [] else 10 # e)"

text \<open>The ten checks of \<open>validate_and_recheck\<close>, each appending its flag, in order.\<close>

definition missing_flags :: "CaseData \<Rightarrow> pystr list" where
  "missing_flags d =
     (if \<not> truthy (nombre d) then [ascii ''Falta nombre.''] else [])
   @ (if \<not> truthy (dui d) then [ascii ''Falta DUI.''] else [])
   @ (if \<not> truthy (contacto d) then [ascii ''Falta contacto.''] else [])
   @ (if \<not> truthy (empleador_nombre d) then [ascii ''Falta empleador (nombre).''] else [])
   @ (if \<not> truthy (cargo d) then [ascii ''Falta cargo.''] else [])
   @ (if \<not> truthy (salario_monto d) \<or> \<not> truthy (salario_periodicidad d)
      then [ascii ''Falta salario (monto/periodicidad).''] else [])
   @ (if \<not> truthy (fecha_inicio d)
      then [ascii ''Falta fecha inicio relaci'' @ [243] @ ascii ''n.''] else [])
   @ (if \<not> truthy (fecha_despido_ultimo_pago d)
      then [ascii ''Falta fecha despido/'' @ [250] @ ascii ''ltimo pago.''] else [])
   @ (if \<not> truthy (relato d) then [ascii ''Falta relato base (del agente general).''] else [])
   @ (if \<not> truthy (pretension d)
      then [ascii ''Falta pretensi'' @ [243] @ ascii ''n.''] else [])"

definition PENAL_FLAG :: pystr where
  "PENAL_FLAG = ascii ''Se'' @ [241] @ ascii ''ales de posible materia penal (solo derivaci''
     @ [243] @ ascii ''n sugerida).''"

definition validate_and_recheck ::
  "(pystr \<Rightarrow> pystr) \<Rightarrow> (pystr \<Rightarrow> pystr) \<Rightarrow> (nat \<Rightarrow> bool) \<Rightarrow> pystr \<Rightarrow> case_db
     \<Rightarrow> result \<times> case_db" where
  "validate_and_recheck upper lower isspace case_id' db =
     (let cid = upper case_id' in
      case db cid of
        None \<Rightarrow> (NOT_FOUND, db)
      | Some c \<Rightarrow>
          (let d = data c;
               relato_total = relato_total_of d;
               flags = missing_flags d
                 @ (if any_penal (normalize_text lower isspace relato_total)
                    then [PENAL_FLAG] else []);
               c1 = c\<lparr>data := d\<lparr>banderas := flags\<rparr>, state := VALIDATED\<rparr>;
               is_laboral = corresponde_a_laboral lower isspace relato_total;
               route = route_operativa lower isspace relato_total;
               c2 = c1\<lparr>data := (data c1)\<lparr>jurisdiccion_probable := Some route\<rparr>,
                      state := PRE_CLASSIFIED\<rparr>
           in ([(''status'', VStr (ascii ''ok'')), (''case_id'', VStr cid),
                (''flags'', VList (map VStr flags)),
                (''jurisdiccion_probable'', VStr route),
                (''corresponde_a_laboral_probable'', VBool is_laboral),
                (''state'', VStr (state_value (state c2)))], db(cid \<mapsto> c2))))"

text \<open>
  The text of the file: \<open>expediente_text cid c\<close> is the string that
  \<open>generate_expediente\<close> joins from the record \<open>c\<close> under the identifier \<open>cid\<close>.
\<close>

definition docs_lines :: "CaseRecord \<Rightarrow> pystr list" where
  "docs_lines c =
     map (\<lambda>name.
        let item = (if checklist c = [] then None else map_of (checklist c) name);
            ok = (case item of None \<Rightarrow> False | Some i \<Rightarrow> recibido i);
            note = (case item of
                      None \<Rightarrow> []
                    | Some i \<Rightarrow>
                        (case nota i of
                           None \<Rightarrow> []
                         | Some n \<Rightarrow> if n = [] then [] else ascii '' ('' @ n @ ascii '')''))
        in ascii ''- '' @ (if ok then [9989] else [9643, 65039]) @ ascii '' '' @ name @ note)
      DOCUMENTOS_BASE"

definition expediente_text :: "pystr \<Rightarrow> CaseRecord \<Rightarrow> pystr" where
  "expediente_text cid c =
     (let d = data c;
          relato_total = relato_total_of d
      in join [10]
          ([ascii ''=== EXPEDIENTE (BORRADOR OPERATIVO) ==='',
            ascii ''Case ID: '' @ cid,
            [],
            ascii ''Formato solicitado:'',
            ascii ''Nombre persona: '' @ or_str (nombre d) (ascii ''N/D''),
            ascii ''DUI: '' @ or_str (dui d) (ascii ''N/D''),
            ascii ''Relato de los hechos:'',
            (if relato_total = [] then ascii ''N/D'' else relato_total),
            [],
            ascii ''Obligatorios capturados (digitados por operador):'',
            ascii ''- Contacto: '' @ or_str (contacto d) (ascii ''N/D''),
            ascii ''- Empleador: '' @ or_str (empleador_nombre d) (ascii ''N/D''),
            ascii ''- Cargo: '' @ or_str (cargo d) (ascii ''N/D''),
            ascii ''- Salario: '' @ or_str (salario_monto d) (ascii ''N/D'')
              @ ascii '' ('' @ or_str (salario_periodicidad d) (ascii ''N/D'') @ ascii '')'',
            ascii ''- Fechas: inicio='' @ or_str (fecha_inicio d) (ascii ''N/D'')
              @ ascii '' | despido/'' @ [250] @ ascii ''ltimo pago=''
              @ or_str (fecha_despido_ultimo_pago d) (ascii ''N/D''),
            ascii ''- Pretensi'' @ [243] @ ascii ''n: '' @ or_str (pretension d) (ascii ''N/D''),
            [],
            ascii ''Documentos base (si existen):'']
           @ docs_lines c
           @ [[],
              ascii ''Pre-clasificaci'' @ [243] @ ascii ''n operativa (NO dictamen):'',
              ascii ''- Ruta/Jurisdicci'' @ [243] @ ascii ''n probable: ''
                @ or_str (jurisdiccion_probable d) (ascii ''N/D''),
              [],
              ascii ''Banderas / faltantes:'']
           @ (if banderas d = [] then [ascii ''- (Sin banderas)'']
              else map (\<lambda>x. ascii ''- '' @ x) (banderas d))
           @ [[],
              ascii ''Nota: revisi'' @ [243] @ ascii ''n humana final obligatoria.'']))"

definition generate_expediente ::
  "(pystr \<Rightarrow> pystr) \<Rightarrow> pystr \<Rightarrow> case_db \<Rightarrow> result \<times> case_db" where
  "generate_expediente upper case_id' db =
     (let cid = upper case_id' in
      case db cid of
        None \<Rightarrow> (NOT_FOUND, db)
      | Some c \<Rightarrow>
          (let expediente' = expediente_text cid c;
               c1 = c\<lparr>expediente := Some expediente', state := EXPEDIENTE_GENERATED\<rparr>
           in ([(''status'', VStr (ascii ''ok'')), (''case_id'', VStr cid),
                (''expediente'', VStr expediente'),
                (''state'', VStr (state_value (state c1)))], db(cid \<mapsto> c1))))"

definition handoff_to_human ::
  "(pystr \<Rightarrow> pystr) \<Rightarrow> pystr \<Rightarrow> pystr option \<Rightarrow> case_db \<Rightarrow> result \<times> case_db" where
  "handoff_to_human upper case_id' nota' db =
     (let cid = upper case_id' in
      case db cid of
        None \<Rightarrow> (NOT_FOUND, db)
      | Some c \<Rightarrow>
          (let c1 = c\<lparr>state := HANDOFF_TO_HUMAN\<rparr>
           in ([(''status'', VStr (ascii ''ok'')), (''case_id'', VStr cid),
                (''state'', VStr (state_value (state c1))),
                (''nota'', VStr (or_str nota' []))], db(cid \<mapsto> c1))))"

section \<open>Predicates of the statements\<close>

text \<open>
  The shape of a result. A success carries the status \<open>ok\<close>, the upper-cased
  identifier and the state of the record as the store holds it after the call; a
  failure carries the status \<open>error\<close> and a message, and nothing else.
\<close>

definition ok_result :: "pystr \<Rightarrow> case_db \<Rightarrow> result \<Rightarrow> bool" where
  "ok_result cid db r =
     (map_of r ''status'' = Some (VStr (ascii ''ok''))
      \<and> map_of r ''case_id'' = Some (VStr cid)
      \<and> (case db cid of
            None \<Rightarrow> False
          | Some c \<Rightarrow> map_of r ''state'' = Some (VStr (state_value (state c)))))"

definition error_result :: "result \<Rightarrow> bool" where
  "error_result r =
     (map_of r ''status'' = Some (VStr (ascii ''error''))
      \<and> map fst r = [''status'', ''error_message''])"

definition well_formed :: "pystr \<Rightarrow> result \<times> case_db \<Rightarrow> bool" where
  "well_formed cid out = (ok_result cid (snd out) (fst out) \<or> error_result (fst out))"

text \<open>
  Two identifiers are the same up to letter case when they have the same length and
  the same upper-cased form.
\<close>

definition same_up_to_case :: "(pystr \<Rightarrow> pystr) \<Rightarrow> pystr \<Rightarrow> pystr \<Rightarrow> bool" where
  "same_up_to_case upper a b = (length a = length b \<and> upper a = upper b)"


section \<open>Properties of the classifier\<close>

lemma startswith_prefix: "startswith t s = prefix s t"
  by (induction t s rule: startswith.induct) auto

lemma str_in_sublist: "str_in s t = sublist s t"
  by (induction t) (simp_all add: startswith_prefix sublist_Cons_right)

text \<open>
  C3. Whenever the normalised text contains one of the criminal-signal phrases, the
  verdict is "not labour" and the route is the criminal one, whatever labour keywords
  the text contains as well.
\<close>

theorem penal_signal_has_priority:
  assumes "s \<in> set PENAL_SIGNALS"
    and "sublist s (normalize_text lower isspace text)"
  shows "\<not> corresponde_a_laboral lower isspace text
       \<and> route_operativa lower isspace text = ROUTE_PENAL"
proof -
  from assms have "any_penal (normalize_text lower isspace text)"
    unfolding any_penal_def list_ex_iff str_in_sublist by blast
  then show ?thesis
    by (simp add: corresponde_a_laboral_def route_operativa_def)
qed

theorem penal_signal_has_priority_witness:
  "ascii ''extorsi'' @ [243] @ ascii ''n'' \<in> set PENAL_SIGNALS
   \<and> sublist (ascii ''extorsi'' @ [243] @ ascii ''n'')
        (normalize_text ascii_lower ascii_isspace
           (ascii ''  No me pagaron el SALARIO  y hubo Extorsi'' @ [243] @ ascii ''n del empleador ''))
   \<and> any_laboral (normalize_text ascii_lower ascii_isspace
           (ascii ''  No me pagaron el SALARIO  y hubo Extorsi'' @ [243] @ ascii ''n del empleador ''))
   \<and> \<not> corresponde_a_laboral ascii_lower ascii_isspace
           (ascii ''  No me pagaron el SALARIO  y hubo Extorsi'' @ [243] @ ascii ''n del empleador '')
   \<and> route_operativa ascii_lower ascii_isspace
           (ascii ''  No me pagaron el SALARIO  y hubo Extorsi'' @ [243] @ ascii ''n del empleador '')
       = ROUTE_PENAL"
proof -
  let ?t = "ascii ''  No me pagaron el SALARIO  y hubo Extorsi'' @ [243] @ ascii ''n del empleador ''"
  have n: "normalize_text ascii_lower ascii_isspace ?t
      = ascii ''no me pagaron el salario y hubo extorsi'' @ [243] @ ascii ''n del empleador''"
    by (simp add: normalize_text_def strip_def ascii_lower_def ascii_isspace_def ascii_def)
  have h1: "ascii ''extorsi'' @ [243] @ ascii ''n'' \<in> set PENAL_SIGNALS"
    by (simp add: PENAL_SIGNALS_def)
  have h2: "sublist (ascii ''extorsi'' @ [243] @ ascii ''n'')
      (normalize_text ascii_lower ascii_isspace ?t)"
    unfolding n str_in_sublist [symmetric] by (simp add: ascii_def)
  have h3: "any_laboral (normalize_text ascii_lower ascii_isspace ?t)"
    unfolding n by (simp add: any_laboral_def LABORAL_KEYWORDS_def ascii_def)
  from penal_signal_has_priority [OF h1 h2] h1 h2 h3 show ?thesis by blast
qed

section \<open>Pulling a narrative that is not registered\<close>

text \<open>
  C1 (as amended). When no narrative is registered under the upper-cased identifier,
  \<open>pull_story_from_general\<close> returns the error result \<open>NO_STORY\<close>. A store that
  already holds a record under that identifier is returned as it is; otherwise the
  store gains a fresh record under that identifier and nothing else changes.
\<close>

theorem pull_story_no_narrative:
  assumes "map_of HARDCODED_GENERAL_CASES (upper case_id') = None"
  shows "pull_story_from_general upper now case_id' db =
           (NO_STORY,
            if upper case_id' \<in> dom db then db
            else db(upper case_id' \<mapsto> new_record (upper case_id') now))"
  using assms by (auto simp: pull_story_from_general_def Let_def split: option.splits)

text \<open>
  At \<open>lab-9999\<close> on the empty store the hypothesis holds and the store gains the record
  \<open>LAB-9999\<close> in state \<open>RECEIVED\<close>.
\<close>

theorem pull_story_no_narrative_witness:
  "map_of HARDCODED_GENERAL_CASES (ascii_upper (ascii ''lab-9999'')) = None
   \<and> pull_story_from_general ascii_upper
        (ascii ''2024-05-01T10:00:00.000001Z'', ascii ''2024-05-01T10:00:00.000002Z'')
        (ascii ''lab-9999'') Map.empty
     = (NO_STORY,
        [ascii ''LAB-9999'' \<mapsto>
           \<lparr>case_id = ascii ''LAB-9999'', state = RECEIVED,
            created_at = ascii ''2024-05-01T10:00:00.000001Z'',
            updated_at = ascii ''2024-05-01T10:00:00.000002Z'',
            data = new_data, checklist = [], expediente = None\<rparr>])"
proof -
  have u: "ascii_upper (ascii ''lab-9999'') = ascii ''LAB-9999''"
    by (simp add: ascii_upper_def ascii_def)
  have h: "map_of HARDCODED_GENERAL_CASES (ascii_upper (ascii ''lab-9999'')) = None"
    unfolding u by (simp add: HARDCODED_GENERAL_CASES_def ascii_def)
  from pull_story_no_narrative [where upper = ascii_upper and case_id' = "ascii ''lab-9999''", OF h] h
  show ?thesis
    unfolding u by (simp add: new_record_def)
qed

text \<open>
  So the case store is not always left unchanged: there it was empty before the call
  and is not after it.
\<close>

theorem pull_story_no_narrative_counterexample:
  "map_of HARDCODED_GENERAL_CASES (ascii_upper (ascii ''lab-9999'')) = None
   \<and> snd (pull_story_from_general ascii_upper
            (ascii ''2024-05-01T10:00:00.000001Z'', ascii ''2024-05-01T10:00:00.000002Z'')
            (ascii ''lab-9999'') Map.empty) \<noteq> Map.empty"
  by (simp add: pull_story_from_general_def HARDCODED_GENERAL_CASES_def ascii_upper_def
      ascii_def Let_def)

section \<open>Shape of the results\<close>

lemmas shape_defs = well_formed_def ok_result_def error_result_def NOT_FOUND_def NO_STORY_def Let_def

lemma wf_create_case:
  "well_formed (upper (or_str case_id_opt (ascii ''LAB-0001''))) (create_case upper now case_id_opt db)"
  by (auto simp: create_case_def shape_defs split: option.splits)

lemma wf_capture_identity:
  "well_formed (upper case_id') (capture_identity upper now case_id' dui' nombre' contacto' db)"
  by (simp add: capture_identity_def shape_defs split: option.splits)

lemma wf_pull_story:
  "well_formed (upper case_id') (pull_story_from_general upper now case_id' db)"
  by (auto simp: pull_story_from_general_def shape_defs split: option.splits)

lemma wf_add_more_info:
  "well_formed (upper case_id') (add_more_info upper case_id' info_adicional db)"
  by (simp add: add_more_info_def shape_defs split: option.splits)

lemma wf_capture_required_fields:
  "well_formed (upper case_id') (capture_required_fields upper case_id' e c m p f u t db)"
  by (simp add: capture_required_fields_def shape_defs split: option.splits)

lemma wf_request_documents:
  "well_formed (upper case_id') (request_documents upper case_id' db)"
  by (simp add: request_documents_def shape_defs split: option.splits)

lemma wf_mark_document:
  "well_formed (upper case_id') (mark_document upper case_id' doc_name existe nota' db)"
  by (simp add: mark_document_def shape_defs split: option.splits)

lemma wf_validate_and_recheck:
  "well_formed (upper case_id') (validate_and_recheck upper lower isspace case_id' db)"
  by (simp add: validate_and_recheck_def shape_defs split: option.splits)

lemma wf_generate_expediente:
  "well_formed (upper case_id') (generate_expediente upper case_id' db)"
  by (simp add: generate_expediente_def shape_defs split: option.splits)

lemma wf_handoff_to_human:
  "well_formed (upper case_id') (handoff_to_human upper case_id' nota' db)"
  by (simp add: handoff_to_human_def shape_defs split: option.splits)

text \<open>
  C2 (as amended). Every operation returns a result with a status, \<open>ok\<close> or
  \<open>error\<close>. A result with status \<open>ok\<close> also has the upper-cased case identifier
  and the resulting state of the record; a result with status \<open>error\<close> has the status
  and an error message only.
\<close>

theorem results_well_formed:
  "well_formed (upper (or_str case_id_opt (ascii ''LAB-0001''))) (create_case upper now case_id_opt db)
 \<and> well_formed (upper case_id') (capture_identity upper now case_id' dui' nombre' contacto' db)
 \<and> well_formed (upper case_id') (pull_story_from_general upper now case_id' db)
 \<and> well_formed (upper case_id') (add_more_info upper case_id' info_adicional db)
 \<and> well_formed (upper case_id')
      (capture_required_fields upper case_id' empleador_nombre' cargo' salario_monto'
         salario_periodicidad' fecha_inicio' fecha_despido_ultimo_pago' pretension' db)
 \<and> well_formed (upper case_id') (request_documents upper case_id' db)
 \<and> well_formed (upper case_id') (mark_document upper case_id' doc_name existe nota' db)
 \<and> well_formed (upper case_id') (validate_and_recheck upper lower isspace case_id' db)
 \<and> well_formed (upper case_id') (generate_expediente upper case_id' db)
 \<and> well_formed (upper case_id') (handoff_to_human upper case_id' nota' db)"
  by (intro conjI wf_create_case wf_capture_identity wf_pull_story wf_add_more_info
      wf_capture_required_fields wf_request_documents wf_mark_document
      wf_validate_and_recheck wf_generate_expediente wf_handoff_to_human)

text \<open>
  Not every result has the case identifier: the error result of \<open>add_more_info\<close>
  on a store without the record has no such key.
\<close>

theorem results_well_formed_counterexample:
  "map_of (fst (add_more_info ascii_upper (ascii ''lab-0001'') (ascii ''Tengo testigos.'') Map.empty))
     ''case_id'' = None"
  by (simp add: add_more_info_def NOT_FOUND_def)

theorem results_well_formed_witness:
  "error_result (fst (add_more_info ascii_upper (ascii ''lab-0001'') (ascii ''Tengo testigos.'') Map.empty))
 \<and> ok_result (ascii ''LAB-0001'')
      (snd (create_case ascii_upper (ascii ''t1'', ascii ''t2'') (Some (ascii ''lab-0001'')) Map.empty))
      (fst (create_case ascii_upper (ascii ''t1'', ascii ''t2'') (Some (ascii ''lab-0001'')) Map.empty))"
proof -
  have u: "ascii_upper (ascii ''lab-0001'') = ascii ''LAB-0001''"
    by (simp add: ascii_upper_def ascii_def)
  have o: "or_str (Some (ascii ''lab-0001'')) (ascii ''LAB-0001'') = ascii ''lab-0001''"
    by (simp add: or_str_def ascii_def)
  have a: "\<not> ok_result (ascii ''LAB-0001'') Map.empty r" for r
    by (simp add: ok_result_def)
  have b: "\<not> error_result
     (fst (create_case ascii_upper (ascii ''t1'', ascii ''t2'') (Some (ascii ''lab-0001'')) Map.empty))"
    by (simp add: create_case_def error_result_def Let_def)
  have s: "snd (add_more_info ascii_upper (ascii ''lab-0001'') (ascii ''Tengo testigos.'') Map.empty) = Map.empty"
    by (simp add: add_more_info_def u)
  from results_well_formed [where upper = ascii_upper and case_id' = "ascii ''lab-0001''"
      and case_id_opt = "Some (ascii ''lab-0001'')" and now = "(ascii ''t1'', ascii ''t2'')"
      and info_adicional = "ascii ''Tengo testigos.''" and db = Map.empty]
  show ?thesis
    unfolding well_formed_def u o s using a b by blast
qed

section \<open>Validation flags\<close>






section \<open>Marking documents\<close>

lemma map_of_base_checklist:
  "map_of (map (\<lambda>name. (name, new_item name)) ds) k
     = (if k \<in> set ds then Some (new_item k) else None)"
  by (simp add: map_of_map_restrict restrict_map_def)

text \<open>
  C5. \<open>mark_document\<close> on an existing record with an empty checklist succeeds.
  The checklist of the record then has every entry of \<open>DOCUMENTOS_BASE\<close>, in order
  (and the named document after them when it is not one of them); the named item has
  the given received flag and the given note (no note when the argument is absent or
  empty), and every other base entry is the default item.
\<close>

theorem mark_document_before_request:
  assumes "db (upper case_id') = Some c"
    and "checklist c = []"
  shows "\<exists>c'. snd (mark_document upper case_id' doc_name existe nota' db) (upper case_id') = Some c'
         \<and> ok_result (upper case_id')
              (snd (mark_document upper case_id' doc_name existe nota' db))
              (fst (mark_document upper case_id' doc_name existe nota' db))
         \<and> map fst (checklist c')
             = (if doc_name \<in> set DOCUMENTOS_BASE then DOCUMENTOS_BASE
                else DOCUMENTOS_BASE @ [doc_name])
         \<and> map_of (checklist c') doc_name
             = Some \<lparr>doc = doc_name, requerido = False, recibido = existe,
                     nota = (if truthy nota' then nota' else None)\<rparr>
         \<and> list_all (\<lambda>d. d = doc_name \<or> map_of (checklist c') d = Some (new_item d))
             DOCUMENTOS_BASE"
proof -
  let ?base = "map (\<lambda>name. (name, new_item name)) DOCUMENTOS_BASE"
  let ?item = "\<lparr>doc = doc_name, requerido = False, recibido = existe,
                 nota = (if truthy nota' then nota' else None)\<rparr>"
  let ?c' = "c\<lparr>checklist := AList.update doc_name ?item ?base, state := DOCS_RECEIVED\<rparr>"
  have item: "(case map_of ?base doc_name of None \<Rightarrow> new_item doc_name | Some i \<Rightarrow> i)
      = new_item doc_name"
    by (simp add: map_of_base_checklist)
  have run: "mark_document upper case_id' doc_name existe nota' db
      = ([(''status'', VStr (ascii ''ok'')), (''case_id'', VStr (upper case_id')),
          (''doc'', VStr doc_name), (''existe'', VBool existe),
          (''state'', VStr (state_value DOCS_RECEIVED))], db(upper case_id' \<mapsto> ?c'))"
    using assms by (simp add: mark_document_def Let_def item) (simp add: new_item_def)
  have keys: "map fst (checklist ?c')
      = (if doc_name \<in> set DOCUMENTOS_BASE then DOCUMENTOS_BASE
         else DOCUMENTOS_BASE @ [doc_name])"
    by (simp add: update_keys comp_def)
  have marked: "map_of (checklist ?c') doc_name = Some ?item"
    by (simp add: update_conv')
  have others: "list_all (\<lambda>d. d = doc_name \<or> map_of (checklist ?c') d = Some (new_item d))
      DOCUMENTOS_BASE"
    by (simp add: list_all_iff update_conv' map_of_base_checklist)
  have ok: "ok_result (upper case_id')
      (snd (mark_document upper case_id' doc_name existe nota' db))
      (fst (mark_document upper case_id' doc_name existe nota' db))"
    unfolding run by (simp add: ok_result_def)
  have "snd (mark_document upper case_id' doc_name existe nota' db) (upper case_id') = Some ?c'"
    unfolding run by simp
  with ok keys marked others show ?thesis by blast
qed

theorem mark_document_before_request_witness:
  "[ascii ''LAB-0001'' \<mapsto> new_record (ascii ''LAB-0001'') (ascii ''t1'', ascii ''t2'')]
     (ascii_upper (ascii ''lab-0001''))
     = Some (new_record (ascii ''LAB-0001'') (ascii ''t1'', ascii ''t2''))
   \<and> checklist (new_record (ascii ''LAB-0001'') (ascii ''t1'', ascii ''t2'')) = []
   \<and> map_option (\<lambda>c'. map fst (checklist c'))
        (snd (mark_document ascii_upper (ascii ''lab-0001'') (ascii ''Comprobantes de pago'')
           True (Some (ascii ''copia''))
           [ascii ''LAB-0001'' \<mapsto> new_record (ascii ''LAB-0001'') (ascii ''t1'', ascii ''t2'')])
         (ascii ''LAB-0001''))
     = Some DOCUMENTOS_BASE
   \<and> map_option (\<lambda>c'. map_of (checklist c') (ascii ''Comprobantes de pago''))
        (snd (mark_document ascii_upper (ascii ''lab-0001'') (ascii ''Comprobantes de pago'')
           True (Some (ascii ''copia''))
           [ascii ''LAB-0001'' \<mapsto> new_record (ascii ''LAB-0001'') (ascii ''t1'', ascii ''t2'')])
         (ascii ''LAB-0001''))
     = Some (Some \<lparr>doc = ascii ''Comprobantes de pago'', requerido = False, recibido = True,
                   nota = Some (ascii ''copia'')\<rparr>)"
proof -
  let ?c = "new_record (ascii ''LAB-0001'') (ascii ''t1'', ascii ''t2'')"
  let ?db = "[ascii ''LAB-0001'' \<mapsto> ?c]"
  have u: "ascii_upper (ascii ''lab-0001'') = ascii ''LAB-0001''"
    by (simp add: ascii_upper_def ascii_def)
  have h1: "?db (ascii_upper (ascii ''lab-0001'')) = Some ?c"
    unfolding u by simp
  have h2: "checklist ?c = []"
    by (simp add: new_record_def)
  have m: "ascii ''Comprobantes de pago'' \<in> set DOCUMENTOS_BASE"
    by (simp add: DOCUMENTOS_BASE_def)
  have t: "truthy (Some (ascii ''copia''))"
    by (simp add: truthy_def ascii_def)
  from mark_document_before_request [where upper = ascii_upper
      and case_id' = "ascii ''lab-0001''" and db = ?db
      and doc_name = "ascii ''Comprobantes de pago''" and existe = True
      and nota' = "Some (ascii ''copia'')", OF h1 h2] h1 h2
  show ?thesis
    unfolding u by (auto simp: m t)
qed

text \<open>
  C10. On an existing checklist item, \<open>mark_document\<close> sets the received flag and
  writes the note only when the argument is a non-empty string: with the argument
  absent or empty the stored note stays as it was, so a note that is there is never
  cleared.
\<close>

theorem mark_document_keeps_note:
  assumes "db (upper case_id') = Some c"
    and "map_of (checklist c) doc_name = Some it"
  shows "\<exists>c'. snd (mark_document upper case_id' doc_name existe nota' db) (upper case_id') = Some c'
           \<and> map_of (checklist c') doc_name
             = Some (it\<lparr>recibido := existe,
                        nota := (if truthy nota' then nota' else nota it)\<rparr>)
           \<and> (truthy (nota it) \<longrightarrow>
                truthy (if truthy nota' then nota' else nota it))"
proof -
  from assms(2) have "checklist c \<noteq> []" by auto
  with assms show ?thesis
    by (simp add: mark_document_def Let_def update_conv')
qed

text \<open>
  An item with the note \<open>copia\<close>, marked again with the empty note: the flag
  changes, the note stays.
\<close>

theorem mark_document_keeps_note_witness:
  "[ascii ''LAB-0001'' \<mapsto>
      (new_record (ascii ''LAB-0001'') (ascii ''t1'', ascii ''t2''))
        \<lparr>checklist := [(ascii ''Comprobantes de pago'',
            \<lparr>doc = ascii ''Comprobantes de pago'', requerido = False, recibido = True,
             nota = Some (ascii ''copia'')\<rparr>)]\<rparr>] (ascii_upper (ascii ''lab-0001''))
     = Some ((new_record (ascii ''LAB-0001'') (ascii ''t1'', ascii ''t2''))
        \<lparr>checklist := [(ascii ''Comprobantes de pago'',
            \<lparr>doc = ascii ''Comprobantes de pago'', requerido = False, recibido = True,
             nota = Some (ascii ''copia'')\<rparr>)]\<rparr>)
   \<and> map_option (\<lambda>c'. map_of (checklist c') (ascii ''Comprobantes de pago''))
       (snd (mark_document ascii_upper (ascii ''lab-0001'') (ascii ''Comprobantes de pago'')
          False (Some [])
          [ascii ''LAB-0001'' \<mapsto>
            (new_record (ascii ''LAB-0001'') (ascii ''t1'', ascii ''t2''))
              \<lparr>checklist := [(ascii ''Comprobantes de pago'',
                 \<lparr>doc = ascii ''Comprobantes de pago'', requerido = False, recibido = True,
                  nota = Some (ascii ''copia'')\<rparr>)]\<rparr>]) (ascii ''LAB-0001''))
     = Some (Some \<lparr>doc = ascii ''Comprobantes de pago'', requerido = False, recibido = False,
                   nota = Some (ascii ''copia'')\<rparr>)"
proof -
  let ?it = "\<lparr>doc = ascii ''Comprobantes de pago'', requerido = False, recibido = True,
             nota = Some (ascii ''copia'')\<rparr>"
  let ?c = "(new_record (ascii ''LAB-0001'') (ascii ''t1'', ascii ''t2''))
        \<lparr>checklist := [(ascii ''Comprobantes de pago'', ?it)]\<rparr>"
  let ?db = "[ascii ''LAB-0001'' \<mapsto> ?c]"
  have u: "ascii_upper (ascii ''lab-0001'') = ascii ''LAB-0001''"
    by (simp add: ascii_upper_def ascii_def)
  have h1: "?db (ascii_upper (ascii ''lab-0001'')) = Some ?c"
    unfolding u by simp
  have h2: "map_of (checklist ?c) (ascii ''Comprobantes de pago'') = Some ?it"
    by simp
  from mark_document_keeps_note [where upper = ascii_upper and case_id' = "ascii ''lab-0001''"
      and db = ?db and existe = False and nota' = "Some []", OF h1 h2] h1
  show ?thesis
    unfolding u by (auto simp: truthy_def)
qed

section \<open>Creating a case twice\<close>

text \<open>
  C6. A second \<open>create_case\<close> on the same identifier returns what the first
  returned and leaves the store as the first left it. More generally, on a store that
  holds a record under the identifier, \<open>create_case\<close> returns the state of that
  record and the store unchanged, whatever the record holds.
\<close>

theorem create_case_idempotent:
  "create_case upper now2 case_id_opt (snd (create_case upper now1 case_id_opt db))
     = create_case upper now1 case_id_opt db
   \<and> (db (upper (or_str case_id_opt (ascii ''LAB-0001''))) = Some c \<longrightarrow>
        create_case upper now1 case_id_opt db
        = ([(''status'', VStr (ascii ''ok'')),
            (''case_id'', VStr (upper (or_str case_id_opt (ascii ''LAB-0001'')))),
            (''state'', VStr (state_value (state c)))], db))"
  by (auto simp: create_case_def Let_def split: option.splits)

theorem create_case_idempotent_witness:
  "[ascii ''LAB-0001'' \<mapsto>
      (new_record (ascii ''LAB-0001'') (ascii ''t1'', ascii ''t2''))
        \<lparr>state := DOCS_RECEIVED, data := new_data\<lparr>nombre := Some (ascii ''Ana'')\<rparr>\<rparr>]
     (ascii_upper (or_str (Some (ascii ''lab-0001'')) (ascii ''LAB-0001'')))
   = Some ((new_record (ascii ''LAB-0001'') (ascii ''t1'', ascii ''t2''))
        \<lparr>state := DOCS_RECEIVED, data := new_data\<lparr>nombre := Some (ascii ''Ana'')\<rparr>\<rparr>)
   \<and> create_case ascii_upper (ascii ''t3'', ascii ''t4'') (Some (ascii ''lab-0001''))
        [ascii ''LAB-0001'' \<mapsto>
          (new_record (ascii ''LAB-0001'') (ascii ''t1'', ascii ''t2''))
            \<lparr>state := DOCS_RECEIVED, data := new_data\<lparr>nombre := Some (ascii ''Ana'')\<rparr>\<rparr>]
     = ([(''status'', VStr (ascii ''ok'')), (''case_id'', VStr (ascii ''LAB-0001'')),
         (''state'', VStr (ascii ''DOCS_RECEIVED''))],
        [ascii ''LAB-0001'' \<mapsto>
          (new_record (ascii ''LAB-0001'') (ascii ''t1'', ascii ''t2''))
            \<lparr>state := DOCS_RECEIVED, data := new_data\<lparr>nombre := Some (ascii ''Ana'')\<rparr>\<rparr>])"
proof -
  let ?c = "(new_record (ascii ''LAB-0001'') (ascii ''t1'', ascii ''t2''))
        \<lparr>state := DOCS_RECEIVED, data := new_data\<lparr>nombre := Some (ascii ''Ana'')\<rparr>\<rparr>"
  let ?db = "[ascii ''LAB-0001'' \<mapsto> ?c]"
  have u: "ascii_upper (or_str (Some (ascii ''lab-0001'')) (ascii ''LAB-0001'')) = ascii ''LAB-0001''"
    by (simp add: ascii_upper_def or_str_def ascii_def)
  have h: "?db (ascii_upper (or_str (Some (ascii ''lab-0001'')) (ascii ''LAB-0001''))) = Some ?c"
    unfolding u by simp
  from create_case_idempotent [where upper = ascii_upper and db = ?db and c = ?c
      and case_id_opt = "Some (ascii ''lab-0001'')" and ?now1.0 = "(ascii ''t3'', ascii ''t4'')",
      THEN conjunct2, THEN mp, OF h] h
  show ?thesis
    unfolding u by (simp add: new_record_def)
qed

section \<open>Identifiers up to letter case\<close>

text \<open>
  C7. Two identifiers that are the same up to letter case give, for every operation,
  the same result and the same store.
\<close>

theorem identifiers_case_insensitive:
  assumes "same_up_to_case upper a b"
  shows "create_case upper now (Some a) db = create_case upper now (Some b) db
       \<and> capture_identity upper now a dui' nombre' contacto' db
         = capture_identity upper now b dui' nombre' contacto' db
       \<and> pull_story_from_general upper now a db = pull_story_from_general upper now b db
       \<and> add_more_info upper a info_adicional db = add_more_info upper b info_adicional db
       \<and> capture_required_fields upper a empleador_nombre' cargo' salario_monto'
           salario_periodicidad' fecha_inicio' fecha_despido_ultimo_pago' pretension' db
         = capture_required_fields upper b empleador_nombre' cargo' salario_monto'
           salario_periodicidad' fecha_inicio' fecha_despido_ultimo_pago' pretension' db
       \<and> request_documents upper a db = request_documents upper b db
       \<and> mark_document upper a doc_name existe nota' db
         = mark_document upper b doc_name existe nota' db
       \<and> validate_and_recheck upper lower isspace a db
         = validate_and_recheck upper lower isspace b db
       \<and> generate_expediente upper a db = generate_expediente upper b db
       \<and> handoff_to_human upper a nota' db = handoff_to_human upper b nota' db"
proof -
  from assms have u: "upper a = upper b" and e: "(a = []) = (b = [])"
    by (auto simp: same_up_to_case_def)
  have o: "upper (or_str (Some a) d) = upper (or_str (Some b) d)" for d
    using u e by (auto simp: or_str_def)
  show ?thesis
    by (simp add: create_case_def capture_identity_def pull_story_from_general_def
        add_more_info_def capture_required_fields_def request_documents_def
        mark_document_def validate_and_recheck_def generate_expediente_def
        handoff_to_human_def o u)
qed

theorem identifiers_case_insensitive_witness:
  "same_up_to_case ascii_upper (ascii ''lab-0001'') (ascii ''LAB-0001'')
   \<and> add_more_info ascii_upper (ascii ''lab-0001'') (ascii ''Tengo testigos.'')
        [ascii ''LAB-0001'' \<mapsto> new_record (ascii ''LAB-0001'') (ascii ''t1'', ascii ''t2'')]
     = add_more_info ascii_upper (ascii ''LAB-0001'') (ascii ''Tengo testigos.'')
        [ascii ''LAB-0001'' \<mapsto> new_record (ascii ''LAB-0001'') (ascii ''t1'', ascii ''t2'')]
   \<and> create_case ascii_upper (ascii ''t1'', ascii ''t2'') (Some (ascii ''lab-0001'')) Map.empty
     = create_case ascii_upper (ascii ''t1'', ascii ''t2'') (Some (ascii ''LAB-0001'')) Map.empty"
proof -
  have h: "same_up_to_case ascii_upper (ascii ''lab-0001'') (ascii ''LAB-0001'')"
    by (simp add: same_up_to_case_def ascii_upper_def ascii_def)
  from identifiers_case_insensitive [OF h] h show ?thesis by blast
qed

section \<open>The generated file\<close>

text \<open>
  C8. \<open>generate_expediente\<close> called again on the store it returned gives the same
  result and the same store. Two records under the same identifier with the same data
  (fields, route and flags) and the same checklist give the same result, whose text is
  \<open>expediente_text\<close> of the record, and the same stored text, whatever their state,
  time stamps and earlier text.
\<close>

theorem generate_expediente_deterministic:
  "generate_expediente upper case_id' (snd (generate_expediente upper case_id' db))
     = generate_expediente upper case_id' db
   \<and> (db1 (upper case_id') = Some c1 \<and> db2 (upper case_id') = Some c2
        \<and> data c1 = data c2 \<and> checklist c1 = checklist c2 \<longrightarrow>
       fst (generate_expediente upper case_id' db1) = fst (generate_expediente upper case_id' db2)
       \<and> map_of (fst (generate_expediente upper case_id' db1)) ''expediente''
           = Some (VStr (expediente_text (upper case_id') c1))
       \<and> map_option expediente (snd (generate_expediente upper case_id' db1) (upper case_id'))
           = map_option expediente (snd (generate_expediente upper case_id' db2) (upper case_id')))"
proof -
  have same: "expediente_text cid r1 = expediente_text cid r2"
    if d: "data r1 = data r2" and k: "checklist r1 = checklist r2" for cid r1 r2
  proof -
    have l: "docs_lines r1 = docs_lines r2"
      by (simp only: docs_lines_def k)
    show ?thesis
      by (simp only: expediente_text_def d l)
  qed
  have frame: "expediente_text cid (c\<lparr>expediente := e, state := s\<rparr>) = expediente_text cid c"
    for cid c e s
    by (rule same) simp_all
  have twice: "generate_expediente upper case_id' (snd (generate_expediente upper case_id' db))
     = generate_expediente upper case_id' db"
    by (cases "db (upper case_id')") (simp_all add: generate_expediente_def Let_def frame)
  have two: "db1 (upper case_id') = Some c1 \<Longrightarrow> db2 (upper case_id') = Some c2
        \<Longrightarrow> data c1 = data c2 \<Longrightarrow> checklist c1 = checklist c2 \<Longrightarrow>
       fst (generate_expediente upper case_id' db1) = fst (generate_expediente upper case_id' db2)
       \<and> map_of (fst (generate_expediente upper case_id' db1)) ''expediente''
           = Some (VStr (expediente_text (upper case_id') c1))
       \<and> map_option expediente (snd (generate_expediente upper case_id' db1) (upper case_id'))
           = map_option expediente (snd (generate_expediente upper case_id' db2) (upper case_id'))"
    using same [of c1 c2 "upper case_id'"] by (simp add: generate_expediente_def Let_def)
  from twice two show ?thesis by blast
qed

theorem generate_expediente_deterministic_witness:
  "fst (generate_expediente ascii_upper (ascii ''lab-0001'')
          [ascii ''LAB-0001'' \<mapsto> new_record (ascii ''LAB-0001'') (ascii ''t1'', ascii ''t2'')])
   = fst (generate_expediente ascii_upper (ascii ''lab-0001'')
          [ascii ''LAB-0001'' \<mapsto>
             (new_record (ascii ''LAB-0001'') (ascii ''t3'', ascii ''t4''))
               \<lparr>state := HANDOFF_TO_HUMAN, expediente := Some (ascii ''viejo'')\<rparr>])"
proof -
  let ?c1 = "new_record (ascii ''LAB-0001'') (ascii ''t1'', ascii ''t2'')"
  let ?c2 = "(new_record (ascii ''LAB-0001'') (ascii ''t3'', ascii ''t4''))
               \<lparr>state := HANDOFF_TO_HUMAN, expediente := Some (ascii ''viejo'')\<rparr>"
  have u: "ascii_upper (ascii ''lab-0001'') = ascii ''LAB-0001''"
    by (simp add: ascii_upper_def ascii_def)
  have h: "[ascii ''LAB-0001'' \<mapsto> ?c1] (ascii_upper (ascii ''lab-0001'')) = Some ?c1
      \<and> [ascii ''LAB-0001'' \<mapsto> ?c2] (ascii_upper (ascii ''lab-0001'')) = Some ?c2
      \<and> data ?c1 = data ?c2 \<and> checklist ?c1 = checklist ?c2"
    unfolding u by (simp add: new_record_def)
  from generate_expediente_deterministic [where upper = ascii_upper
      and case_id' = "ascii ''lab-0001''" and ?db1.0 = "[ascii ''LAB-0001'' \<mapsto> ?c1]"
      and ?db2.0 = "[ascii ''LAB-0001'' \<mapsto> ?c2]" and ?c1.0 = ?c1 and ?c2.0 = ?c2,
      THEN conjunct2, THEN mp, OF h, THEN conjunct1]
  show ?thesis .
qed

section \<open>Operations on an absent record\<close>

text \<open>
  C9. When the store has no record under the upper-cased identifier, each of the
  seven operations that need one returns the not-found error and the store as it was.
\<close>

theorem absent_record_not_found:
  assumes "db (upper case_id') = None"
  shows "add_more_info upper case_id' info_adicional db = (NOT_FOUND, db)
       \<and> capture_required_fields upper case_id' empleador_nombre' cargo' salario_monto'
           salario_periodicidad' fecha_inicio' fecha_despido_ultimo_pago' pretension' db
         = (NOT_FOUND, db)
       \<and> request_documents upper case_id' db = (NOT_FOUND, db)
       \<and> mark_document upper case_id' doc_name existe nota' db = (NOT_FOUND, db)
       \<and> validate_and_recheck upper lower isspace case_id' db = (NOT_FOUND, db)
       \<and> generate_expediente upper case_id' db = (NOT_FOUND, db)
       \<and> handoff_to_human upper case_id' nota' db = (NOT_FOUND, db)"
  using assms
  by (simp add: add_more_info_def capture_required_fields_def request_documents_def
      mark_document_def validate_and_recheck_def generate_expediente_def
      handoff_to_human_def)

theorem absent_record_not_found_witness:
  "[ascii ''LAB-0001'' \<mapsto> new_record (ascii ''LAB-0001'') (ascii ''t1'', ascii ''t2'')]
     (ascii_upper (ascii ''lab-0002'')) = None
   \<and> handoff_to_human ascii_upper (ascii ''lab-0002'') None
        [ascii ''LAB-0001'' \<mapsto> new_record (ascii ''LAB-0001'') (ascii ''t1'', ascii ''t2'')]
      = (NOT_FOUND,
         [ascii ''LAB-0001'' \<mapsto> new_record (ascii ''LAB-0001'') (ascii ''t1'', ascii ''t2'')])
   \<and> validate_and_recheck ascii_upper ascii_lower ascii_isspace (ascii ''lab-0002'')
        [ascii ''LAB-0001'' \<mapsto> new_record (ascii ''LAB-0001'') (ascii ''t1'', ascii ''t2'')]
      = (NOT_FOUND,
         [ascii ''LAB-0001'' \<mapsto> new_record (ascii ''LAB-0001'') (ascii ''t1'', ascii ''t2'')])"
proof -
  let ?db = "[ascii ''LAB-0001'' \<mapsto> new_record (ascii ''LAB-0001'') (ascii ''t1'', ascii ''t2'')]"
  have h: "?db (ascii_upper (ascii ''lab-0002'')) = None"
    by (simp add: ascii_upper_def ascii_def)
  from absent_record_not_found [where upper = ascii_upper and db = ?db, OF h] h
  show ?thesis by blast
qed

end
